theory Spec2Isabelle
  imports Complex_Main "HOL-Library.Multiset"
begin

section \<open>The protocol editor page of lifekaizen/flow\<close>

text \<open>
  A shallow embedding of \<^verbatim>\<open>src/web/src/pages/ProtocolEditorPage.tsx\<close>: the rich-text codec
  (\<^verbatim>\<open>serializeSlate\<close>, \<^verbatim>\<open>deserializeSlate\<close>), the hover handler of
  \<^verbatim>\<open>ProtocolDraggableBlock\<close>, and the state of \<^verbatim>\<open>ProtocolEditorPage\<close> with its
  displayed values, \<^verbatim>\<open>updateBlock\<close>, \<^verbatim>\<open>moveBlock\<close> and \<^verbatim>\<open>protocolUpsert\<close>.
\<close>

subsection \<open>JavaScript strings and arrays\<close>

text \<open>
  A JavaScript string is a sequence of code units; the model uses \<^typ>\<open>string\<close>, one
  \<^typ>\<open>char\<close> per code unit. The only character the code inspects is the line feed.
\<close>

definition newline :: char where
  "newline = CHR 0x0A"

text \<open>
  \<^verbatim>\<open>str.split(sep)\<close> for a separator of one character: the pieces between the occurrences
  of the separator, so that a string with \<open>k\<close> separators has \<open>k + 1\<close> pieces and the empty
  string has the one piece \<open>''''\<close>. The result is never the empty array (\<open>js_split_not_Nil\<close>
  below), so the first branch of the \<open>case\<close> is never taken.
\<close>

fun js_split :: "char \<Rightarrow> string \<Rightarrow> string list" where
  "js_split sep [] = [[]]"
| "js_split sep (c # cs) =
     (if c = sep then [] # js_split sep cs
      else (case js_split sep cs of
              [] \<Rightarrow> [[c]]
            | piece # pieces \<Rightarrow> (c # piece) # pieces))"

text \<open>
  \<^verbatim>\<open>arr.join(sep)\<close>: the elements with the separator between neighbours; the empty array
  joins to the empty string.
\<close>

fun js_join :: "string \<Rightarrow> string list \<Rightarrow> string" where
  "js_join sep [] = []"
| "js_join sep [piece] = piece"
| "js_join sep (piece # next # pieces) = piece @ sep @ js_join sep (next # pieces)"

text \<open>
  \<^verbatim>\<open>arr.splice(start, deleteCount, ...items)\<close> for non-negative integer arguments, returning
  the array afterwards: JavaScript clamps \<open>start\<close> to the length and \<open>deleteCount\<close> to what is
  left after \<open>start\<close>, which is what \<^const>\<open>take\<close> and \<^const>\<open>drop\<close> do.
\<close>

definition splice :: "'a list \<Rightarrow> nat \<Rightarrow> nat \<Rightarrow> 'a list \<Rightarrow> 'a list" where
  "splice arr start deleteCount items = take start arr @ items @ drop (start + deleteCount) arr"

text \<open>
  \<^verbatim>\<open>arr[i]\<close> on an array whose entries may be \<^verbatim>\<open>undefined\<close> (\<^const>\<open>None\<close>): reading
  out of range gives \<^verbatim>\<open>undefined\<close> too.
\<close>

definition js_index :: "'a option list \<Rightarrow> nat \<Rightarrow> 'a option" where
  "js_index arr i = (if i < length arr then arr ! i else None)"

subsection \<open>Slate nodes and the codec\<close>

text \<open>
  A Slate \<^verbatim>\<open>Node\<close> is a text leaf \<^verbatim>\<open>{text}\<close> or an element \<^verbatim>\<open>{children}\<close>.
  \<^verbatim>\<open>Node.string\<close> is the library's: the text of a leaf, the concatenation of the strings
  of the children of an element.
\<close>

datatype node = Text string | Element "node list"

fun Node_string :: "node \<Rightarrow> string" where
  "Node_string (Text t) = t"
| "Node_string (Element children) = concat (map Node_string children)"

definition serializeSlate :: "node list \<Rightarrow> string" where
  "serializeSlate v = js_join [newline] (map Node_string v)"

definition deserializeSlate :: "string \<Rightarrow> node list" where
  "deserializeSlate str = map (\<lambda>line. Element [Text line]) (js_split newline str)"

definition normalize :: "node list \<Rightarrow> node list" where
  \<comment> \<open>From the spec's words, for comparison with the codec: each paragraph's leaves are
      replaced by a single leaf holding their concatenation.\<close>
  "normalize d = map (\<lambda>paragraph. Element [Text (Node_string paragraph)]) d"

fun single_leaf :: "node \<Rightarrow> bool" where
  \<comment> \<open>A paragraph with exactly one leaf child.\<close>
  "single_leaf (Element [Text t]) = True"
| "single_leaf _ = False"

subsection \<open>Errors\<close>

text \<open>
  What the page can throw: the engine's \<^verbatim>\<open>TypeError\<close> on a property read of
  \<^verbatim>\<open>undefined\<close> or \<^verbatim>\<open>null\<close>, an \<^verbatim>\<open>Error\<close> with its message, and whatever a
  collaborator rejects with.
\<close>

datatype js_error = TypeError | Error string | Rejected string

subsection \<open>The hover handler of the draggable block\<close>

text \<open>
  \<^verbatim>\<open>DragItem\<close> has the constant \<^verbatim>\<open>type: 'protocol-block'\<close> and the index the dragged item
  is recorded at. Indices are positions given by \<^verbatim>\<open>Array.prototype.map\<close>, natural numbers.

  The coordinates of the bounding rectangle and of the pointer are JavaScript numbers, IEEE
  doubles, of which the handler reads the vertical ones. It subtracts them, divides by the
  literal \<^verbatim>\<open>2\<close> and compares with \<^verbatim>\<open><\<close> and \<^verbatim>\<open>>\<close>. The result of an operation on
  doubles is rounded, so it is not the result on real numbers. The model therefore fixes
  neither the type \<open>'d\<close> of the coordinates nor the operations: they are the record
  \<open>ops\<close>, about which nothing is assumed, and what is proved of the handler holds for the
  operations on doubles as for any others.
\<close>

record DragItem =
  index :: nat

record 'd DOMRect =
  rect_top :: 'd
  rect_bottom :: 'd

record 'd XYCoord =
  coord_x :: 'd
  coord_y :: 'd

record 'd number_ops =
  op_minus :: "'d \<Rightarrow> 'd \<Rightarrow> 'd"
  op_divide :: "'d \<Rightarrow> 'd \<Rightarrow> 'd"
  op_two :: 'd
  op_less :: "'d \<Rightarrow> 'd \<Rightarrow> bool"
  op_greater :: "'d \<Rightarrow> 'd \<Rightarrow> bool"

text \<open>
  \<^verbatim>\<open>hover(item, monitor)\<close> of the component rendered at position \<open>idx\<close>. It mutates
  \<^verbatim>\<open>item.index\<close> and calls the \<^verbatim>\<open>moveBlock\<close> property, a callback on the state \<open>'s\<close> of
  the owner. \<open>ref\<close> is \<^verbatim>\<open>ref.current\<close> (\<^const>\<open>None\<close> when not mounted), given by the
  rectangle \<^verbatim>\<open>getBoundingClientRect()\<close> returns; \<open>clientOffset\<close> is
  \<^verbatim>\<open>monitor.getClientOffset()\<close>, whose \<^verbatim>\<open>.y\<close> is read without a null check.
\<close>

definition hover ::
  "'d number_ops \<Rightarrow> (nat \<Rightarrow> nat \<Rightarrow> 's \<Rightarrow> 's) \<Rightarrow> nat \<Rightarrow> 'd DOMRect option \<Rightarrow>
   'd XYCoord option \<Rightarrow> DragItem \<times> 's \<Rightarrow> js_error + DragItem \<times> 's" where
  "hover ops moveBlock idx ref clientOffset = (\<lambda>(item, s).
     case ref of
       None \<Rightarrow> Inr (item, s)
     | Some hoverBoundingRect \<Rightarrow>
         if index item = idx then Inr (item, s)
         else
           (case clientOffset of
              None \<Rightarrow> Inl TypeError
            | Some offset \<Rightarrow>
                let hoverMiddleY =
                      op_divide ops
                        (op_minus ops (rect_bottom hoverBoundingRect) (rect_top hoverBoundingRect))
                        (op_two ops);
                    hoverClientY = op_minus ops (coord_y offset) (rect_top hoverBoundingRect)
                in if index item < idx \<and> op_less ops hoverClientY hoverMiddleY
                   then Inr (item, s)
                   else if index item > idx \<and> op_greater ops hoverClientY hoverMiddleY
                   then Inr (item, s)
                   else Inr (item\<lparr>index := idx\<rparr>, moveBlock (index item) idx s)))"

text \<open>The handler invoked \<open>n\<close> times in a row with the same arguments, stopping at an error.\<close>

fun hover_times ::
  "nat \<Rightarrow> 'd number_ops \<Rightarrow> (nat \<Rightarrow> nat \<Rightarrow> 's \<Rightarrow> 's) \<Rightarrow> nat \<Rightarrow> 'd DOMRect option \<Rightarrow>
   'd XYCoord option \<Rightarrow> DragItem \<times> 's \<Rightarrow> js_error + DragItem \<times> 's" where
  "hover_times 0 ops moveBlock idx ref clientOffset p = Inr p"
| "hover_times (Suc n) ops moveBlock idx ref clientOffset p =
     (case hover ops moveBlock idx ref clientOffset p of
        Inl e \<Rightarrow> Inl e
      | Inr p' \<Rightarrow> hover_times n ops moveBlock idx ref clientOffset p')"

text \<open>A \<^verbatim>\<open>moveBlock\<close> callback that only records the calls made to it.\<close>

definition record_move :: "nat \<Rightarrow> nat \<Rightarrow> (nat \<times> nat) list \<Rightarrow> (nat \<times> nat) list" where
  "record_move dragIndex hoverIndex calls = calls @ [(dragIndex, hoverIndex)]"

text \<open>
  For examples: the exact operations on real numbers. On the coordinates of the examples
  below, small whole numbers, every operation the handler makes has a result that is a
  double, so the operations on doubles give the same results there.
\<close>

definition exact_ops :: "real number_ops" where
  "exact_ops =
     \<lparr>op_minus = (\<lambda>a b. a - b), op_divide = (\<lambda>a b. a / b), op_two = 2,
      op_less = (\<lambda>a b. a < b), op_greater = (\<lambda>a b. a > b)\<rparr>"

subsection \<open>Blocks and protocols\<close>

text \<open>
  The declarations of \<^verbatim>\<open>BlockDefinition\<close> and \<^verbatim>\<open>Protocol\<close> are in
  \<^verbatim>\<open>../models\<close>, outside the two source files. The page reads \<^verbatim>\<open>id\<close> and \<^verbatim>\<open>type\<close>
  of a block (and guards against a block without \<^verbatim>\<open>id\<close> when rendering), and \<^verbatim>\<open>id\<close>,
  \<^verbatim>\<open>name\<close>, \<^verbatim>\<open>description\<close>, \<^verbatim>\<open>blocks\<close> of a protocol, each of which it tests for
  presence: optional properties are \<^typ>\<open>'a option\<close>, with \<^const>\<open>None\<close> for
  \<^verbatim>\<open>undefined\<close>. The fields a block has for its type are the parameter \<open>'f\<close>. A numeric id
  is an integer, \<^const>\<open>None\<close> also standing for \<^verbatim>\<open>NaN\<close>.
\<close>

datatype block_type =
  text_question | options_question | plate_sampler | plate_add_reagent | plate_sequencer

record 'f BlockDefinition =
  block_id :: "string option"
  block_type :: block_type
  block_fields :: 'f

text \<open>
  An array of blocks can hold \<^verbatim>\<open>undefined\<close> entries at run time (\<^verbatim>\<open>moveBlock\<close> inserts
  what an index read returned, and the render loop skips \<^verbatim>\<open>!block\<close>), so its entries are
  options.
\<close>

type_synonym 'f block_array = "'f BlockDefinition option list"

record 'f Protocol =
  protocol_id :: "int option"
  protocol_name :: "string option"
  protocol_description :: "string option"
  protocol_blocks :: "'f block_array option"

text \<open>Truthiness of a number or a string that may be \<^verbatim>\<open>undefined\<close>.\<close>

definition truthy_number :: "int option \<Rightarrow> bool" where
  "truthy_number n = (case n of None \<Rightarrow> False | Some k \<Rightarrow> k \<noteq> 0)"

definition truthy_string :: "string option \<Rightarrow> bool" where
  "truthy_string s = (case s of None \<Rightarrow> False | Some t \<Rightarrow> t \<noteq> [])"

subsection \<open>The state of the editor page and the displayed values\<close>

text \<open>
  The five \<^verbatim>\<open>useState\<close> cells of \<^verbatim>\<open>ProtocolEditorPage\<close>; \<^const>\<open>None\<close> is
  \<^verbatim>\<open>null\<close>. The record read from the cache, \<^verbatim>\<open>useRecoilValue(protocolQuery(...))\<close>, is
  an argument \<open>protocol\<close> of the functions below, \<^const>\<open>None\<close> when there is none.
\<close>

record 'f page_state =
  name :: "string option"
  description :: "node list option"
  blocks :: "'f block_array option"
  formSaving :: bool
  formSavedTime :: "string option"

text \<open>
  \<^verbatim>\<open>a || b\<close> is \<open>a\<close> when \<open>a\<close> is truthy and \<open>b\<close> otherwise; \<^verbatim>\<open>a && b\<close> is \<open>b\<close> when
  \<open>a\<close> is truthy and \<open>a\<close> otherwise. A string is truthy when it is not empty; an array is
  always truthy.
\<close>

definition currentName :: "'f page_state \<Rightarrow> 'f Protocol option \<Rightarrow> string" where
  "currentName st protocol =
     (if truthy_string (name st) then the (name st)
      else (case protocol of
              None \<Rightarrow> []
            | Some p \<Rightarrow> if truthy_string (protocol_name p) then the (protocol_name p) else []))"

definition currentDescription :: "'f page_state \<Rightarrow> 'f Protocol option \<Rightarrow> node list" where
  "currentDescription st protocol =
     (case description st of
        Some d \<Rightarrow> d
      | None \<Rightarrow>
          (case protocol of
             None \<Rightarrow> [Text []]
           | Some p \<Rightarrow>
               if truthy_string (protocol_description p)
               then deserializeSlate (the (protocol_description p))
               else [Text []]))"

definition currentBlocks :: "'f page_state \<Rightarrow> 'f Protocol option \<Rightarrow> 'f block_array" where
  "currentBlocks st protocol =
     (case blocks st of
        Some bs \<Rightarrow> bs
      | None \<Rightarrow>
          (case protocol of
             None \<Rightarrow> []
           | Some p \<Rightarrow> (case protocol_blocks p of None \<Rightarrow> [] | Some bs \<Rightarrow> bs)))"

subsection \<open>Updating and moving blocks\<close>

text \<open>\<^verbatim>\<open>arr.map(f)\<close> for an \<open>f\<close> that can throw: the first error ends the map.\<close>

fun map_throwing :: "('a \<Rightarrow> js_error + 'b) \<Rightarrow> 'a list \<Rightarrow> js_error + 'b list" where
  "map_throwing f [] = Inr []"
| "map_throwing f (a # as) =
     (case f a of
        Inl e \<Rightarrow> Inl e
      | Inr b \<Rightarrow> (case map_throwing f as of Inl e \<Rightarrow> Inl e | Inr bs \<Rightarrow> Inr (b # bs)))"

text \<open>
  The arrow function \<^verbatim>\<open>b => (b.id === block.id) ? block : b\<close>; reading \<^verbatim>\<open>b.id\<close> of an
  \<^verbatim>\<open>undefined\<close> entry throws.
\<close>

definition replace_matching ::
  "'f BlockDefinition \<Rightarrow> 'f BlockDefinition option \<Rightarrow> js_error + 'f BlockDefinition option" where
  "replace_matching block entry =
     (case entry of
        None \<Rightarrow> Inl TypeError
      | Some b \<Rightarrow> if block_id b = block_id block then Inr (Some block) else Inr (Some b))"

definition updateBlock ::
  "'f page_state \<Rightarrow> 'f Protocol option \<Rightarrow> 'f BlockDefinition option \<Rightarrow> js_error + 'f page_state" where
  "updateBlock st protocol block =
     (case block of
        None \<Rightarrow> Inr st
      | Some blk \<Rightarrow>
          (case map_throwing (replace_matching blk) (currentBlocks st protocol) of
             Inl e \<Rightarrow> Inl e
           | Inr newBlocks \<Rightarrow> Inr (st\<lparr>blocks := Some newBlocks\<rparr>)))"

text \<open>The array \<^verbatim>\<open>moveBlock\<close> builds, and \<^verbatim>\<open>moveBlock\<close> itself, which stores it.\<close>

definition move :: "'a option list \<Rightarrow> nat \<Rightarrow> nat \<Rightarrow> 'a option list" where
  "move current dragIndex hoverIndex =
     (let dragBlock = js_index current dragIndex;
          newBlocks = current;
          newBlocks = splice newBlocks dragIndex 1 [];
          newBlocks = splice newBlocks hoverIndex 0 [dragBlock]
      in newBlocks)"

definition moveBlock :: "'f Protocol option \<Rightarrow> nat \<Rightarrow> nat \<Rightarrow> 'f page_state \<Rightarrow> 'f page_state" where
  "moveBlock protocol dragIndex hoverIndex st =
     st\<lparr>blocks := Some (move (currentBlocks st protocol) dragIndex hoverIndex)\<rparr>"

subsection \<open>Saving\<close>

text \<open>The decimal digits of an integer, after a minus sign when it is negative.\<close>

definition digit_char :: "nat \<Rightarrow> char" where
  "digit_char d = ''0123456789'' ! d"

function show_nat :: "nat \<Rightarrow> string" where
  "show_nat n = (if n < 10 then [digit_char n] else show_nat (n div 10) @ [digit_char (n mod 10)])"
  by pat_completeness auto
termination
  by (relation "measure (\<lambda>n. n)") auto

declare show_nat.simps [simp del]

definition show_int :: "int \<Rightarrow> string" where
  "show_int k = (if k < 0 then CHR ''-'' # show_nat (nat (- k)) else show_nat (nat k))"

text \<open>
  The number-to-string conversion of the template literal \<^verbatim>\<open>`protocol/${protocol.id}`\<close>.
  The id is a double with an integer value. Every integer of magnitude at most \<^verbatim>\<open>2^53\<close> is
  a double, and the conversion prints all its decimal digits. A larger double is printed
  with the fewest digits that identify it, followed by zeros, and in exponent notation from
  \<^verbatim>\<open>1e21\<close> on; that part of the conversion is not modelled but taken as the parameter
  \<open>large\<close>, about which nothing is assumed.
\<close>

definition number_to_string :: "(int \<Rightarrow> string) \<Rightarrow> int \<Rightarrow> string" where
  "number_to_string large k =
     (if \<bar>k\<bar> \<le> 9007199254740992 then show_int k else large k)"

text \<open>For examples whose ids are small: a conversion of large numbers that is never used.\<close>

definition unused_large :: "int \<Rightarrow> string" where
  "unused_large k = []"

text \<open>
  Outside the page: the Recoil atom \<^verbatim>\<open>protocolsState\<close> with its \<^verbatim>\<open>protocolCache\<close>
  (a \<^verbatim>\<open>Map\<close> from numeric id to protocol), and the server behind \<^verbatim>\<open>apiFetch\<close>. The
  calls made to \<^verbatim>\<open>apiFetch\<close> are recorded in \<open>requests\<close> as (method, path, body).
\<close>

record 'f world =
  protocolCache :: "int \<Rightarrow> 'f Protocol option"
  requests :: "(string \<times> string \<times> 'f Protocol) list"

text \<open>
  The two constants at the head of the \<^verbatim>\<open>try\<close> block: \<^verbatim>\<open>protocol.id ? "PUT" : "POST"\<close>
  and \<^verbatim>\<open>protocol.id ? `protocol/${protocol.id}` : "protocol"\<close>.
\<close>

definition upsert_method :: "'f Protocol \<Rightarrow> string" where
  "upsert_method protocol = (if truthy_number (protocol_id protocol) then ''PUT'' else ''POST'')"

definition upsert_path :: "(int \<Rightarrow> string) \<Rightarrow> 'f Protocol \<Rightarrow> string" where
  "upsert_path large protocol =
     (if truthy_number (protocol_id protocol)
      then ''protocol/'' @ number_to_string large (the (protocol_id protocol))
      else ''protocol'')"

text \<open>
  The \<^verbatim>\<open>try\<close> block of \<^verbatim>\<open>protocolUpsert\<close>. \<open>auth\<close> is what
  \<^verbatim>\<open>snapshot.getPromise(auth0State)\<close> settles to and \<open>apiFetch\<close> what the transport
  settles to for a client, method, path and body; a rejection is \<^const>\<open>Inl\<close>. The result is
  the exception that leaves the block, if any, and the world afterwards. The key of the
  cache entry is a truthy id, for which the equality of \<^verbatim>\<open>Map\<close> keys is that of numbers.
\<close>

definition protocolUpsert_try ::
  "(int \<Rightarrow> string) \<Rightarrow> js_error + 'c \<Rightarrow> ('c \<Rightarrow> string \<Rightarrow> string \<Rightarrow> 'f Protocol \<Rightarrow> js_error + 'f Protocol) \<Rightarrow>
   'f Protocol \<Rightarrow> 'f world \<Rightarrow> (js_error + unit) \<times> 'f world" where
  "protocolUpsert_try large auth apiFetch protocol w =
     (case auth of
        Inl e \<Rightarrow> (Inl e, w)
      | Inr auth0Client \<Rightarrow>
          let method = upsert_method protocol;
              path = upsert_path large protocol;
              w1 = w\<lparr>requests := requests w @ [(method, path, protocol)]\<rparr>
          in case apiFetch auth0Client method path protocol of
               Inl e \<Rightarrow> (Inl e, w1)
             | Inr created \<Rightarrow>
                 if truthy_number (protocol_id created)
                 then (Inr (),
                       w1\<lparr>protocolCache :=
                            (protocolCache w1)(the (protocol_id created) \<mapsto> created)\<rparr>)
                 else (Inl (Error ''Received a protocol without an ID from server!''), w1))"

text \<open>
  \<^verbatim>\<open>protocolUpsert\<close>: \<^verbatim>\<open>setFormSaving(true)\<close>, the \<^verbatim>\<open>try\<close> block, and the
  \<^verbatim>\<open>finally\<close> block on every path, with \<open>now\<close> for \<^verbatim>\<open>moment().format()\<close>. An exception
  of the \<^verbatim>\<open>try\<close> block is rethrown after the \<^verbatim>\<open>finally\<close> block: it is the first
  component of the result.
\<close>

definition protocolUpsert ::
  "(int \<Rightarrow> string) \<Rightarrow> js_error + 'c \<Rightarrow> ('c \<Rightarrow> string \<Rightarrow> string \<Rightarrow> 'f Protocol \<Rightarrow> js_error + 'f Protocol) \<Rightarrow>
   string \<Rightarrow> 'f Protocol \<Rightarrow> 'f page_state \<times> 'f world \<Rightarrow>
   (js_error + unit) \<times> 'f page_state \<times> 'f world" where
  "protocolUpsert large auth apiFetch now protocol = (\<lambda>(st, w).
     let st1 = st\<lparr>formSaving := True\<rparr>;
         (outcome, w') = protocolUpsert_try large auth apiFetch protocol w;
         st2 = st1\<lparr>formSaving := False\<rparr>;
         st3 = st2\<lparr>formSavedTime := Some now\<rparr>
     in (outcome, st3, w'))"

text \<open>
  The \<^verbatim>\<open>onClick\<close> of the save button; \<open>routeId\<close> is \<^verbatim>\<open>parseInt(id)\<close> of the route
  parameter, \<^const>\<open>None\<close> when that is \<^verbatim>\<open>NaN\<close>.
\<close>

definition saveRecord :: "int option \<Rightarrow> 'f page_state \<Rightarrow> 'f Protocol option \<Rightarrow> 'f Protocol" where
  "saveRecord routeId st protocol =
     \<lparr>protocol_id = routeId,
      protocol_name = Some (currentName st protocol),
      protocol_description = Some (serializeSlate (currentDescription st protocol)),
      protocol_blocks = Some (currentBlocks st protocol)\<rparr>"

definition onSaveClick ::
  "(int \<Rightarrow> string) \<Rightarrow> js_error + 'c \<Rightarrow> ('c \<Rightarrow> string \<Rightarrow> string \<Rightarrow> 'f Protocol \<Rightarrow> js_error + 'f Protocol) \<Rightarrow>
   string \<Rightarrow> int option \<Rightarrow> 'f Protocol option \<Rightarrow> 'f page_state \<times> 'f world \<Rightarrow>
   (js_error + unit) \<times> 'f page_state \<times> 'f world" where
  "onSaveClick large auth apiFetch now routeId protocol = (\<lambda>(st, w).
     protocolUpsert large auth apiFetch now (saveRecord routeId st protocol) (st, w))"

section \<open>Properties\<close>

subsection \<open>Splitting and joining\<close>

lemma js_split_not_Nil: "js_split sep s \<noteq> []"
  by (induction s) (auto split: list.splits)

lemma js_join_Cons:
  "pieces \<noteq> [] \<Longrightarrow> js_join sep (piece # pieces) = piece @ sep @ js_join sep pieces"
  by (cases pieces) simp_all

lemma js_join_Cons_hd:
  "js_join sep ((c # piece) # pieces) = c # js_join sep (piece # pieces)"
  by (cases pieces) simp_all

lemma js_join_split: "js_join [sep] (js_split sep s) = s"
proof (induction s)
  case Nil
  show ?case by simp
next
  case (Cons c cs)
  show ?case
  proof (cases "c = sep")
    case True
    with Cons show ?thesis by (simp add: js_join_Cons js_split_not_Nil)
  next
    case False
    obtain piece pieces where sp: "js_split sep cs = piece # pieces"
      using js_split_not_Nil [of sep cs] by (cases "js_split sep cs") auto
    with Cons False show ?thesis by (simp add: js_join_Cons_hd)
  qed
qed

lemma Node_string_paragraph: "map Node_string (map (\<lambda>line. Element [Text line]) ls) = ls"
  by (induction ls) simp_all

lemma js_split_no_sep: "sep \<notin> set s \<Longrightarrow> js_split sep s = [s]"
  by (induction s) auto

lemma js_split_append_sep:
  "sep \<notin> set s \<Longrightarrow> js_split sep (s @ sep # rest) = s # js_split sep rest"
  by (induction s) (auto split: list.splits)

lemma js_split_join:
  "ls \<noteq> [] \<Longrightarrow> list_all (\<lambda>l. sep \<notin> set l) ls \<Longrightarrow> js_split sep (js_join [sep] ls) = ls"
proof (induction "[sep]" ls rule: js_join.induct)
  case 1
  then show ?case by simp
next
  case (2 piece)
  then show ?case by (simp add: js_split_no_sep)
next
  case (3 piece nxt pieces)
  then show ?case by (simp add: js_split_append_sep)
qed

lemma normalize_single_leaf: "list_all single_leaf d \<Longrightarrow> normalize d = d"
proof (induction d)
  case Nil
  show ?case by (simp add: normalize_def)
next
  case (Cons p d)
  from Cons.prems have "single_leaf p" by simp
  then obtain t where "p = Element [Text t]"
    by (cases p rule: single_leaf.cases) auto
  with Cons show ?case by (simp add: normalize_def)
qed

subsection \<open>C7: the document side of the codec round trip\<close>

text \<open>
  C7 as stated fails on the code. The empty document serialises to the empty string, which
  deserialises to one paragraph with one empty leaf; and a paragraph whose single leaf holds
  a line feed comes back as two paragraphs.
\<close>

theorem deserialize_serialize_counterexample:
  "deserializeSlate (serializeSlate []) \<noteq> normalize [] \<and>
   list_all single_leaf [Element [Text [CHR ''a'', newline, CHR ''b'']]] \<and>
   deserializeSlate (serializeSlate [Element [Text [CHR ''a'', newline, CHR ''b'']]])
     \<noteq> [Element [Text [CHR ''a'', newline, CHR ''b'']]] \<and>
   deserializeSlate (serializeSlate [Element [Text [CHR ''a'', newline, CHR ''b'']]])
     \<noteq> normalize [Element [Text [CHR ''a'', newline, CHR ''b'']]]"
  by (simp add: deserializeSlate_def serializeSlate_def normalize_def newline_def)

text \<open>
  C7, amended. For every document \<open>d\<close> that has at least one paragraph and no line feed in
  the text of any paragraph, deserialising the serialisation of \<open>d\<close> gives \<open>normalize d\<close>,
  each paragraph's leaves replaced by one leaf holding their concatenation; and it gives \<open>d\<close>
  itself when every paragraph of \<open>d\<close> has exactly one leaf child.
\<close>

theorem deserialize_serialize_normalize:
  assumes "d \<noteq> []" and "list_all (\<lambda>p. newline \<notin> set (Node_string p)) d"
  shows "deserializeSlate (serializeSlate d) = normalize d \<and>
         (list_all single_leaf d \<longrightarrow> deserializeSlate (serializeSlate d) = d)"
proof -
  have "map Node_string d \<noteq> []" using assms(1) by simp
  moreover have "list_all (\<lambda>l. newline \<notin> set l) (map Node_string d)"
    using assms(2) by (simp add: list_all_iff)
  ultimately have "js_split newline (js_join [newline] (map Node_string d)) = map Node_string d"
    by (rule js_split_join)
  then have "deserializeSlate (serializeSlate d) = normalize d"
    by (simp add: deserializeSlate_def serializeSlate_def normalize_def)
  then show ?thesis by (simp add: normalize_single_leaf)
qed

theorem deserialize_serialize_normalize_witness:
  "list_all (\<lambda>p. newline \<notin> set (Node_string p)) [Element [Text ''ab'', Text ''c''], Element []] \<and>
   deserializeSlate (serializeSlate [Element [Text ''ab'', Text ''c''], Element []])
     = [Element [Text ''abc''], Element [Text '''']] \<and>
   list_all (\<lambda>p. newline \<notin> set (Node_string p)) [Element [Text ''ab''], Element [Text '''']] \<and>
   list_all single_leaf [Element [Text ''ab''], Element [Text '''']] \<and>
   deserializeSlate (serializeSlate [Element [Text ''ab''], Element [Text '''']])
     = [Element [Text ''ab''], Element [Text '''']]"
  using deserialize_serialize_normalize [of "[Element [Text ''ab'', Text ''c''], Element []]"]
    deserialize_serialize_normalize [of "[Element [Text ''ab''], Element [Text '''']]"]
  by (simp add: normalize_def newline_def)

subsection \<open>C10: the string side of the codec round trip\<close>

text \<open>
  C10. For every string \<open>s\<close>, with or without line feeds and also when empty, serialising the
  document that \<open>s\<close> deserialises to gives \<open>s\<close> back.
\<close>

theorem serialize_deserialize_id: "serializeSlate (deserializeSlate s) = s"
  unfolding serializeSlate_def deserializeSlate_def
  by (simp only: Node_string_paragraph js_join_split)

subsection \<open>The displayed blocks\<close>

lemma currentBlocks_overlay: "currentBlocks (st\<lparr>blocks := Some bs\<rparr>) protocol = bs"
  by (simp add: currentBlocks_def)

subsection \<open>C4: moving a block\<close>

lemma move_map_Some:
  assumes "i < length xs"
  shows "move (map Some xs) i j =
         map Some (take j (take i xs @ drop (Suc i) xs) @ [xs ! i] @
                   drop j (take i xs @ drop (Suc i) xs))"
  using assms
  by (simp add: move_def splice_def js_index_def Let_def take_map drop_map)

lemma mset_remove_insert:
  assumes "i < length xs"
  shows "mset (take j (take i xs @ drop (Suc i) xs) @ [xs ! i] @
               drop j (take i xs @ drop (Suc i) xs)) = mset xs"
proof -
  let ?rest = "take i xs @ drop (Suc i) xs"
  have "mset (take j ?rest @ [xs ! i] @ drop j ?rest) =
        mset (take j ?rest @ drop j ?rest) + {#xs ! i#}"
    by simp
  also have "\<dots> = mset ?rest + {#xs ! i#}"
    by (simp only: append_take_drop_id)
  also have "\<dots> = mset (take i xs @ xs ! i # drop (Suc i) xs)"
    by simp
  also have "\<dots> = mset xs"
    using assms by (simp only: id_take_nth_drop [symmetric])
  finally show ?thesis .
qed

text \<open>
  C4. When the displayed blocks are the \<open>N\<close> blocks \<open>bs\<close> and both indices are below \<open>N\<close>,
  \<^verbatim>\<open>moveBlock\<close> leaves as displayed blocks the sequence \<open>result\<close> obtained by removing the
  element at \<open>fromIndex\<close> and inserting it at \<open>toIndex\<close> of what is left; \<open>result\<close> has length
  \<open>N\<close>, the same multiset of identity tokens as \<open>bs\<close>, and the moved block at \<open>toIndex\<close>.
\<close>

theorem moveBlock_in_range:
  assumes "currentBlocks st protocol = map Some bs"
    and "fromIndex < length bs" and "toIndex < length bs"
  shows "let rest = take fromIndex bs @ drop (Suc fromIndex) bs;
             result = take toIndex rest @ [bs ! fromIndex] @ drop toIndex rest
         in currentBlocks (moveBlock protocol fromIndex toIndex st) protocol = map Some result \<and>
            move (map Some bs) fromIndex toIndex = map Some result \<and>
            length result = length bs \<and>
            mset (map block_id result) = mset (map block_id bs) \<and>
            result ! toIndex = bs ! fromIndex"
proof -
  let ?rest = "take fromIndex bs @ drop (Suc fromIndex) bs"
  let ?result = "take toIndex ?rest @ [bs ! fromIndex] @ drop toIndex ?rest"
  have len_rest: "length ?rest = length bs - 1"
    using assms(2) by simp
  have to: "toIndex \<le> length ?rest"
    using assms(3) len_rest by simp
  have 1: "move (map Some bs) fromIndex toIndex = map Some ?result"
    using assms(2) by (rule move_map_Some)
  have 0: "currentBlocks (moveBlock protocol fromIndex toIndex st) protocol = map Some ?result"
    using 1 assms(1) by (simp only: moveBlock_def currentBlocks_overlay)
  have 2: "length ?result = length bs"
    using assms(2,3) by simp
  have "mset ?result = mset bs"
    using assms(2) by (rule mset_remove_insert)
  then have 3: "mset (map block_id ?result) = mset (map block_id bs)"
    by (metis mset_map)
  have "length (take toIndex ?rest) = toIndex"
    using to by simp
  then have 4: "?result ! toIndex = bs ! fromIndex"
    by (metis nth_append_length append_Cons append_Nil)
  from 0 1 2 3 4 show ?thesis by (simp only: Let_def simp_thms)
qed

theorem moveBlock_in_range_witness:
  "currentBlocks
     \<lparr>name = None, description = None,
      blocks = Some [Some \<lparr>block_id = Some ''a'', block_type = text_question, block_fields = ()\<rparr>,
                     Some \<lparr>block_id = Some ''b'', block_type = options_question, block_fields = ()\<rparr>,
                     Some \<lparr>block_id = Some ''c'', block_type = plate_sampler, block_fields = ()\<rparr>],
      formSaving = False, formSavedTime = None\<rparr> None =
   map Some [\<lparr>block_id = Some ''a'', block_type = text_question, block_fields = ()\<rparr>,
             \<lparr>block_id = Some ''b'', block_type = options_question, block_fields = ()\<rparr>,
             \<lparr>block_id = Some ''c'', block_type = plate_sampler, block_fields = ()\<rparr>] \<and>
   currentBlocks
     (moveBlock None 0 2
        \<lparr>name = None, description = None,
         blocks = Some [Some \<lparr>block_id = Some ''a'', block_type = text_question, block_fields = ()\<rparr>,
                        Some \<lparr>block_id = Some ''b'', block_type = options_question, block_fields = ()\<rparr>,
                        Some \<lparr>block_id = Some ''c'', block_type = plate_sampler, block_fields = ()\<rparr>],
         formSaving = False, formSavedTime = None\<rparr>) None =
   [Some \<lparr>block_id = Some ''b'', block_type = options_question, block_fields = ()\<rparr>,
    Some \<lparr>block_id = Some ''c'', block_type = plate_sampler, block_fields = ()\<rparr>,
    Some \<lparr>block_id = Some ''a'', block_type = text_question, block_fields = ()\<rparr>]"
  using moveBlock_in_range
    [of "\<lparr>name = None, description = None,
         blocks = Some [Some \<lparr>block_id = Some ''a'', block_type = text_question, block_fields = ()\<rparr>,
                        Some \<lparr>block_id = Some ''b'', block_type = options_question, block_fields = ()\<rparr>,
                        Some \<lparr>block_id = Some ''c'', block_type = plate_sampler, block_fields = ()\<rparr>],
         formSaving = False, formSavedTime = None\<rparr>"
        None
        "[\<lparr>block_id = Some ''a'', block_type = text_question, block_fields = ()\<rparr>,
          \<lparr>block_id = Some ''b'', block_type = options_question, block_fields = ()\<rparr>,
          \<lparr>block_id = Some ''c'', block_type = plate_sampler, block_fields = ()\<rparr>]"
        0 2]
  by (simp add: currentBlocks_def Let_def)

subsection \<open>C8: updating a block by its identity token\<close>

lemma map_throwing_replace:
  "map_throwing (replace_matching block) (map Some bs) =
   Inr (map Some (map (\<lambda>b. if block_id b = block_id block then block else b) bs))"
  by (induction bs) (simp_all add: replace_matching_def)

lemma map_no_match:
  "\<forall>b \<in> set bs. block_id b \<noteq> block_id block \<Longrightarrow>
   map (\<lambda>b. if block_id b = block_id block then block else b) bs = bs"
  by (induction bs) simp_all

text \<open>
  C8. When the displayed blocks are the blocks \<open>bs\<close>, \<^verbatim>\<open>updateBlock\<close> with a block returns
  without an error and leaves as displayed blocks a list \<open>bs'\<close> of the same length, in which
  every position holding a block with the token of the updated block holds the updated
  block and every other position holds what it held; when no block of \<open>bs\<close> has that token,
  \<open>bs'\<close> is \<open>bs\<close>.
\<close>

theorem updateBlock_by_identity:
  assumes "currentBlocks st protocol = map Some bs"
  shows "\<exists>bs'. updateBlock st protocol (Some block) = Inr (st\<lparr>blocks := Some (map Some bs')\<rparr>) \<and>
           currentBlocks (st\<lparr>blocks := Some (map Some bs')\<rparr>) protocol = map Some bs' \<and>
           length bs' = length bs \<and>
           (\<forall>i < length bs.
              bs' ! i = (if block_id (bs ! i) = block_id block then block else bs ! i)) \<and>
           ((\<forall>b \<in> set bs. block_id b \<noteq> block_id block) \<longrightarrow> bs' = bs)"
proof -
  let ?bs' = "map (\<lambda>b. if block_id b = block_id block then block else b) bs"
  have "updateBlock st protocol (Some block) = Inr (st\<lparr>blocks := Some (map Some ?bs')\<rparr>)"
    using assms by (simp add: updateBlock_def map_throwing_replace)
  moreover have "currentBlocks (st\<lparr>blocks := Some (map Some ?bs')\<rparr>) protocol = map Some ?bs'"
    by (rule currentBlocks_overlay)
  moreover have "length ?bs' = length bs" by simp
  moreover have "\<forall>i < length bs.
      ?bs' ! i = (if block_id (bs ! i) = block_id block then block else bs ! i)"
    by simp
  moreover have "(\<forall>b \<in> set bs. block_id b \<noteq> block_id block) \<longrightarrow> ?bs' = bs"
    using map_no_match by blast
  ultimately show ?thesis by blast
qed

theorem updateBlock_by_identity_witness:
  "updateBlock
     \<lparr>name = None, description = None,
      blocks = Some [Some \<lparr>block_id = Some ''a'', block_type = text_question, block_fields = ()\<rparr>,
                     Some \<lparr>block_id = Some ''b'', block_type = options_question, block_fields = ()\<rparr>],
      formSaving = False, formSavedTime = None\<rparr> None
     (Some \<lparr>block_id = Some ''b'', block_type = plate_sequencer, block_fields = ()\<rparr>) =
   Inr \<lparr>name = None, description = None,
        blocks = Some [Some \<lparr>block_id = Some ''a'', block_type = text_question, block_fields = ()\<rparr>,
                       Some \<lparr>block_id = Some ''b'', block_type = plate_sequencer, block_fields = ()\<rparr>],
        formSaving = False, formSavedTime = None\<rparr> \<and>
   updateBlock
     \<lparr>name = None, description = None,
      blocks = Some [Some \<lparr>block_id = Some ''a'', block_type = text_question, block_fields = ()\<rparr>,
                     Some \<lparr>block_id = Some ''b'', block_type = options_question, block_fields = ()\<rparr>],
      formSaving = False, formSavedTime = None\<rparr> None
     (Some \<lparr>block_id = Some ''z'', block_type = plate_sequencer, block_fields = ()\<rparr>) =
   Inr \<lparr>name = None, description = None,
        blocks = Some [Some \<lparr>block_id = Some ''a'', block_type = text_question, block_fields = ()\<rparr>,
                       Some \<lparr>block_id = Some ''b'', block_type = options_question, block_fields = ()\<rparr>],
        formSaving = False, formSavedTime = None\<rparr>"
  using updateBlock_by_identity
    [of "\<lparr>name = None, description = None,
         blocks = Some [Some \<lparr>block_id = Some ''a'', block_type = text_question, block_fields = ()\<rparr>,
                        Some \<lparr>block_id = Some ''b'', block_type = options_question, block_fields = ()\<rparr>],
         formSaving = False, formSavedTime = None\<rparr>"
        None
        "[\<lparr>block_id = Some ''a'', block_type = text_question, block_fields = ()\<rparr>,
          \<lparr>block_id = Some ''b'', block_type = options_question, block_fields = ()\<rparr>]"
        "\<lparr>block_id = Some ''b'', block_type = plate_sequencer, block_fields = ()\<rparr>"]
    updateBlock_by_identity
    [of "\<lparr>name = None, description = None,
         blocks = Some [Some \<lparr>block_id = Some ''a'', block_type = text_question, block_fields = ()\<rparr>,
                        Some \<lparr>block_id = Some ''b'', block_type = options_question, block_fields = ()\<rparr>],
         formSaving = False, formSavedTime = None\<rparr>"
        None
        "[\<lparr>block_id = Some ''a'', block_type = text_question, block_fields = ()\<rparr>,
          \<lparr>block_id = Some ''b'', block_type = options_question, block_fields = ()\<rparr>]"
        "\<lparr>block_id = Some ''z'', block_type = plate_sequencer, block_fields = ()\<rparr>"]
  by (simp add: updateBlock_def currentBlocks_def replace_matching_def)

subsection \<open>C3: the hover decision\<close>

text \<open>
  C3. For a mounted drop target at position \<open>idx\<close> with bounding rectangle \<open>rect\<close>, a pointer
  at \<open>offset\<close> and a dragged item recorded at another position, with \<open>hoverMiddleY\<close> and
  \<open>hoverClientY\<close> the values the handler computes: when the item comes from above and
  \<open>hoverClientY < hoverMiddleY\<close>, nothing changes; when the item comes from below and
  \<open>hoverClientY > hoverMiddleY\<close>, nothing changes; in every other case \<^verbatim>\<open>moveBlock\<close> is
  called with the recorded position and \<open>idx\<close>, and the item is recorded at \<open>idx\<close>. The
  subtraction, the division, and the comparisons are those of the handler, whatever they
  compute.
\<close>

theorem hover_decision:
  assumes "index item \<noteq> idx"
  shows "let hoverMiddleY =
               op_divide ops (op_minus ops (rect_bottom rect) (rect_top rect)) (op_two ops);
             hoverClientY = op_minus ops (coord_y offset) (rect_top rect);
             result = hover ops mv idx (Some rect) (Some offset) (item, s)
         in (index item < idx \<and> op_less ops hoverClientY hoverMiddleY \<longrightarrow>
               result = Inr (item, s)) \<and>
            (index item > idx \<and> op_greater ops hoverClientY hoverMiddleY \<longrightarrow>
               result = Inr (item, s)) \<and>
            (\<not> (index item < idx \<and> op_less ops hoverClientY hoverMiddleY) \<and>
             \<not> (index item > idx \<and> op_greater ops hoverClientY hoverMiddleY) \<longrightarrow>
               result = Inr (item\<lparr>index := idx\<rparr>, mv (index item) idx s))"
  using assms by (simp add: hover_def Let_def)

theorem hover_decision_witness:
  "hover exact_ops record_move 1 (Some \<lparr>rect_top = 100, rect_bottom = 140\<rparr>)
     (Some \<lparr>coord_x = 5, coord_y = 110\<rparr>) (\<lparr>index = 0\<rparr>, []) = Inr (\<lparr>index = 0\<rparr>, []) \<and>
   hover exact_ops record_move 1 (Some \<lparr>rect_top = 100, rect_bottom = 140\<rparr>)
     (Some \<lparr>coord_x = 5, coord_y = 130\<rparr>) (\<lparr>index = 2\<rparr>, []) = Inr (\<lparr>index = 2\<rparr>, []) \<and>
   hover exact_ops record_move 1 (Some \<lparr>rect_top = 100, rect_bottom = 140\<rparr>)
     (Some \<lparr>coord_x = 5, coord_y = 130\<rparr>) (\<lparr>index = 0\<rparr>, []) = Inr (\<lparr>index = 1\<rparr>, [(0, 1)]) \<and>
   hover exact_ops record_move 1 (Some \<lparr>rect_top = 100, rect_bottom = 140\<rparr>)
     (Some \<lparr>coord_x = 5, coord_y = 120\<rparr>) (\<lparr>index = 2\<rparr>, []) = Inr (\<lparr>index = 1\<rparr>, [(2, 1)])"
  using
    hover_decision [where item = "\<lparr>index = 0\<rparr>" and idx = 1 and ops = exact_ops
      and rect = "\<lparr>rect_top = 100, rect_bottom = 140\<rparr>"
      and offset = "\<lparr>coord_x = 5, coord_y = 110\<rparr>"
      and mv = record_move and s = "[]"]
    hover_decision [where item = "\<lparr>index = 2\<rparr>" and idx = 1 and ops = exact_ops
      and rect = "\<lparr>rect_top = 100, rect_bottom = 140\<rparr>"
      and offset = "\<lparr>coord_x = 5, coord_y = 130\<rparr>"
      and mv = record_move and s = "[]"]
    hover_decision [where item = "\<lparr>index = 0\<rparr>" and idx = 1 and ops = exact_ops
      and rect = "\<lparr>rect_top = 100, rect_bottom = 140\<rparr>"
      and offset = "\<lparr>coord_x = 5, coord_y = 130\<rparr>"
      and mv = record_move and s = "[]"]
    hover_decision [where item = "\<lparr>index = 2\<rparr>" and idx = 1 and ops = exact_ops
      and rect = "\<lparr>rect_top = 100, rect_bottom = 140\<rparr>"
      and offset = "\<lparr>coord_x = 5, coord_y = 120\<rparr>"
      and mv = record_move and s = "[]"]
  by (simp add: Let_def record_move_def exact_ops_def)

subsection \<open>C6: a stationary pointer\<close>

lemma hover_fixed:
  "hover ops mv idx ref off (item\<lparr>index := idx\<rparr>, s) = Inr (item\<lparr>index := idx\<rparr>, s)"
  by (simp add: hover_def split: option.splits)

lemma hover_times_fixed:
  "hover ops mv idx ref off p = Inr p \<Longrightarrow> hover_times n ops mv idx ref off p = Inr p"
  by (induction n) simp_all

lemma hover_cases:
  "hover ops mv idx ref (Some offset) (item, s) = Inr (item, s) \<or>
   hover ops mv idx ref (Some offset) (item, s) =
     Inr (item\<lparr>index := idx\<rparr>, mv (index item) idx s)"
  by (simp add: hover_def Let_def split: option.splits)

lemma hover_times_cases:
  "hover_times n ops mv idx ref (Some offset) (item, s) = Inr (item, s) \<or>
   hover_times n ops mv idx ref (Some offset) (item, s) =
     Inr (item\<lparr>index := idx\<rparr>, mv (index item) idx s)"
proof (cases n)
  case 0
  then show ?thesis by simp
next
  case (Suc m)
  from hover_cases [of ops mv idx ref offset item s] show ?thesis
  proof
    assume "hover ops mv idx ref (Some offset) (item, s) = Inr (item, s)"
    then have "hover_times n ops mv idx ref (Some offset) (item, s) = Inr (item, s)"
      by (rule hover_times_fixed)
    then show ?thesis ..
  next
    assume h: "hover ops mv idx ref (Some offset) (item, s) =
      Inr (item\<lparr>index := idx\<rparr>, mv (index item) idx s)"
    have "hover_times m ops mv idx ref (Some offset)
        (item\<lparr>index := idx\<rparr>, mv (index item) idx s) =
      Inr (item\<lparr>index := idx\<rparr>, mv (index item) idx s)"
      by (rule hover_times_fixed) (rule hover_fixed)
    with h Suc show ?thesis by simp
  qed
qed

text \<open>
  C6. The handler of one drop target, invoked any number \<open>n\<close> of times with the same
  rectangle and the same pointer offset, returns every time, and leaves either everything
  as it was or the outcome of one call of \<^verbatim>\<open>moveBlock\<close>: a callback that records its
  calls has recorded none or one. Once the item is recorded at the position of the target,
  any number \<open>k\<close> of further invocations change nothing.
\<close>

theorem hover_stationary_moves_once:
  "(hover_times n ops mv idx ref (Some offset) (item, s) = Inr (item, s) \<or>
    hover_times n ops mv idx ref (Some offset) (item, s) =
      Inr (item\<lparr>index := idx\<rparr>, mv (index item) idx s)) \<and>
   (hover_times n ops record_move idx ref (Some offset) (item, []) = Inr (item, []) \<or>
    hover_times n ops record_move idx ref (Some offset) (item, []) =
      Inr (item\<lparr>index := idx\<rparr>, [(index item, idx)])) \<and>
   hover_times k ops mv idx ref clientOffset (item\<lparr>index := idx\<rparr>, s') =
     Inr (item\<lparr>index := idx\<rparr>, s')"
proof -
  have "hover_times k ops mv idx ref clientOffset (item\<lparr>index := idx\<rparr>, s') =
     Inr (item\<lparr>index := idx\<rparr>, s')"
    by (rule hover_times_fixed) (rule hover_fixed)
  moreover note hover_times_cases [of n ops mv idx ref offset item s]
  moreover have "hover_times n ops record_move idx ref (Some offset) (item, []) = Inr (item, []) \<or>
    hover_times n ops record_move idx ref (Some offset) (item, []) =
      Inr (item\<lparr>index := idx\<rparr>, [(index item, idx)])"
    using hover_times_cases [of n ops record_move idx ref offset item "[]"]
    by (simp add: record_move_def)
  ultimately show ?thesis by blast
qed

theorem hover_stationary_moves_once_witness:
  "hover_times 3 exact_ops record_move 1 (Some \<lparr>rect_top = 100, rect_bottom = 140\<rparr>)
     (Some \<lparr>coord_x = 5, coord_y = 130\<rparr>) (\<lparr>index = 0\<rparr>, []) = Inr (\<lparr>index = 1\<rparr>, [(0, 1)])"
  using hover_stationary_moves_once [where n = 3 and ops = exact_ops and mv = record_move
      and idx = 1 and ref = "Some \<lparr>rect_top = 100, rect_bottom = 140\<rparr>"
      and offset = "\<lparr>coord_x = 5, coord_y = 130\<rparr>" and item = "\<lparr>index = 0\<rparr>"
      and s = "[]" and k = 0 and clientOffset = None and s' = "[]"]
  by (simp add: hover_def record_move_def exact_ops_def Let_def numeral_3_eq_3)

subsection \<open>C2: the cleanup of a save\<close>

text \<open>
  C2. Whatever the identity source and the transport settle to, \<^verbatim>\<open>protocolUpsert\<close>
  ends with the state of the page as it was before, except that the saving flag is false
  and the time of the last save is the current time: the \<^verbatim>\<open>finally\<close> step applied after
  the \<^verbatim>\<open>try\<close> block, whose exception and world it passes on. When the transport resolves
  with a record without an id, the exception is the error about the missing id and the
  cache is as it was.
\<close>

theorem protocolUpsert_cleanup:
  "\<exists>outcome w'.
     protocolUpsert_try large auth apiFetch protocol w = (outcome, w') \<and>
     protocolUpsert large auth apiFetch now protocol (st, w) =
       (outcome, st\<lparr>formSaving := False, formSavedTime := Some now\<rparr>, w') \<and>
     formSaving (st\<lparr>formSaving := False, formSavedTime := Some now\<rparr>) = False \<and>
     formSavedTime (st\<lparr>formSaving := False, formSavedTime := Some now\<rparr>) = Some now \<and>
     (\<forall>c created.
        auth = Inr c \<and>
        apiFetch c (upsert_method protocol) (upsert_path large protocol) protocol = Inr created \<and>
        protocol_id created = None \<longrightarrow>
          outcome = Inl (Error ''Received a protocol without an ID from server!'') \<and>
          protocolCache w' = protocolCache w)"
proof -
  obtain outcome w' where t: "protocolUpsert_try large auth apiFetch protocol w = (outcome, w')"
    by (cases "protocolUpsert_try large auth apiFetch protocol w")
  have u: "protocolUpsert large auth apiFetch now protocol (st, w) =
       (outcome, st\<lparr>formSaving := False, formSavedTime := Some now\<rparr>, w')"
    using t by (simp add: protocolUpsert_def)
  have c: "\<forall>c created.
        auth = Inr c \<and>
        apiFetch c (upsert_method protocol) (upsert_path large protocol) protocol = Inr created \<and>
        protocol_id created = None \<longrightarrow>
          outcome = Inl (Error ''Received a protocol without an ID from server!'') \<and>
          protocolCache w' = protocolCache w"
    using t by (auto simp: protocolUpsert_try_def Let_def truthy_number_def)
  have s: "formSaving (st\<lparr>formSaving := False, formSavedTime := Some now\<rparr>) = False \<and>
     formSavedTime (st\<lparr>formSaving := False, formSavedTime := Some now\<rparr>) = Some now"
    by simp
  from t u c s show ?thesis by blast
qed

theorem protocolUpsert_cleanup_witness:
  "fst (snd (protocolUpsert unused_large (Inr ()) (\<lambda>c m p r. Inr (r\<lparr>protocol_id := Some 42\<rparr>))
     ''2020-06-01T10:00:00''
     \<lparr>protocol_id = None, protocol_name = Some ''A'', protocol_description = Some '''',
      protocol_blocks = Some ([] :: unit block_array)\<rparr>
     (\<lparr>name = Some ''A'', description = None, blocks = None, formSaving = False,
       formSavedTime = None\<rparr>,
      \<lparr>protocolCache = \<lambda>k. None, requests = []\<rparr>))) =
   \<lparr>name = Some ''A'', description = None, blocks = None, formSaving = False,
     formSavedTime = Some ''2020-06-01T10:00:00''\<rparr> \<and>
   protocolUpsert unused_large (Inr ()) (\<lambda>c m p r. Inr (r\<lparr>protocol_id := None\<rparr>))
     ''2020-06-01T10:00:00''
     \<lparr>protocol_id = None, protocol_name = Some ''A'', protocol_description = Some '''',
      protocol_blocks = Some ([] :: unit block_array)\<rparr>
     (\<lparr>name = Some ''A'', description = None, blocks = None, formSaving = False,
       formSavedTime = None\<rparr>,
      \<lparr>protocolCache = \<lambda>k. None, requests = []\<rparr>) =
   (Inl (Error ''Received a protocol without an ID from server!''),
    \<lparr>name = Some ''A'', description = None, blocks = None, formSaving = False,
      formSavedTime = Some ''2020-06-01T10:00:00''\<rparr>,
    \<lparr>protocolCache = \<lambda>k. None,
      requests = [(''POST'', ''protocol'',
        \<lparr>protocol_id = None, protocol_name = Some ''A'', protocol_description = Some '''',
         protocol_blocks = Some []\<rparr>)]\<rparr>) \<and>
   protocolUpsert unused_large (Inr ()) (\<lambda>c m p r. Inl (Rejected ''503''))
     ''2020-06-01T10:00:00''
     \<lparr>protocol_id = None, protocol_name = Some ''A'', protocol_description = Some '''',
      protocol_blocks = Some ([] :: unit block_array)\<rparr>
     (\<lparr>name = Some ''A'', description = None, blocks = None, formSaving = False,
       formSavedTime = None\<rparr>,
      \<lparr>protocolCache = \<lambda>k. None, requests = []\<rparr>) =
   (Inl (Rejected ''503''),
    \<lparr>name = Some ''A'', description = None, blocks = None, formSaving = False,
      formSavedTime = Some ''2020-06-01T10:00:00''\<rparr>,
    \<lparr>protocolCache = \<lambda>k. None,
      requests = [(''POST'', ''protocol'',
        \<lparr>protocol_id = None, protocol_name = Some ''A'', protocol_description = Some '''',
         protocol_blocks = Some []\<rparr>)]\<rparr>)"
  using
    protocolUpsert_cleanup [where large = unused_large and auth = "Inr ()"
      and apiFetch = "\<lambda>c m p r. Inr (r\<lparr>protocol_id := Some 42\<rparr>)"
      and protocol = "\<lparr>protocol_id = None, protocol_name = Some ''A'',
        protocol_description = Some '''', protocol_blocks = Some ([] :: unit block_array)\<rparr>"
      and w = "\<lparr>protocolCache = \<lambda>k. None, requests = []\<rparr>" and now = "''2020-06-01T10:00:00''"
      and st = "\<lparr>name = Some ''A'', description = None, blocks = None, formSaving = False,
        formSavedTime = None\<rparr>"]
    protocolUpsert_cleanup [where large = unused_large and auth = "Inr ()"
      and apiFetch = "\<lambda>c m p r. Inr (r\<lparr>protocol_id := None\<rparr>)"
      and protocol = "\<lparr>protocol_id = None, protocol_name = Some ''A'',
        protocol_description = Some '''', protocol_blocks = Some ([] :: unit block_array)\<rparr>"
      and w = "\<lparr>protocolCache = \<lambda>k. None, requests = []\<rparr>" and now = "''2020-06-01T10:00:00''"
      and st = "\<lparr>name = Some ''A'', description = None, blocks = None, formSaving = False,
        formSavedTime = None\<rparr>"]
    protocolUpsert_cleanup [where large = unused_large and auth = "Inr ()"
      and apiFetch = "\<lambda>c m p r. Inl (Rejected ''503'')"
      and protocol = "\<lparr>protocol_id = None, protocol_name = Some ''A'',
        protocol_description = Some '''', protocol_blocks = Some ([] :: unit block_array)\<rparr>"
      and w = "\<lparr>protocolCache = \<lambda>k. None, requests = []\<rparr>" and now = "''2020-06-01T10:00:00''"
      and st = "\<lparr>name = Some ''A'', description = None, blocks = None, formSaving = False,
        formSavedTime = None\<rparr>"]
  by (simp add: protocolUpsert_def protocolUpsert_try_def upsert_method_def upsert_path_def
      truthy_number_def Let_def)

subsection \<open>C5: the request of a save and the cache\<close>

text \<open>
  C5 as stated fails on the code where an id is the number 0, which JavaScript takes for
  false: a protocol whose id is 0 is sent with the create verb to the collection path, and
  a response carrying the id 0 is refused as one without an id, the cache left as it was.
\<close>

theorem save_zero_id_counterexample:
  "requests (snd (snd (protocolUpsert unused_large (Inr ()) (\<lambda>c m p r. Inr r)
     ''2020-06-01T10:00:00''
     \<lparr>protocol_id = Some 0, protocol_name = Some ''A'', protocol_description = Some '''',
      protocol_blocks = Some ([] :: unit block_array)\<rparr>
     (\<lparr>name = Some ''A'', description = None, blocks = None, formSaving = False,
       formSavedTime = None\<rparr>,
      \<lparr>protocolCache = \<lambda>k. None, requests = []\<rparr>)))) =
   [(''POST'', ''protocol'',
     \<lparr>protocol_id = Some 0, protocol_name = Some ''A'', protocol_description = Some '''',
      protocol_blocks = Some []\<rparr>)] \<and>
   protocolCache (snd (snd (protocolUpsert unused_large (Inr ()) (\<lambda>c m p r. Inr r)
     ''2020-06-01T10:00:00''
     \<lparr>protocol_id = Some 0, protocol_name = Some ''A'', protocol_description = Some '''',
      protocol_blocks = Some ([] :: unit block_array)\<rparr>
     (\<lparr>name = Some ''A'', description = None, blocks = None, formSaving = False,
       formSavedTime = None\<rparr>,
      \<lparr>protocolCache = \<lambda>k. None, requests = []\<rparr>)))) 0 = None \<and>
   fst (protocolUpsert unused_large (Inr ()) (\<lambda>c m p r. Inr r) ''2020-06-01T10:00:00''
     \<lparr>protocol_id = Some 0, protocol_name = Some ''A'', protocol_description = Some '''',
      protocol_blocks = Some ([] :: unit block_array)\<rparr>
     (\<lparr>name = Some ''A'', description = None, blocks = None, formSaving = False,
       formSavedTime = None\<rparr>,
      \<lparr>protocolCache = \<lambda>k. None, requests = []\<rparr>)) =
   Inl (Error ''Received a protocol without an ID from server!'')"
  by (simp add: protocolUpsert_def protocolUpsert_try_def upsert_method_def upsert_path_def
      truthy_number_def Let_def)

lemma protocolUpsert_try_requests:
  "protocolUpsert_try large (Inr c) apiFetch p w = (outcome, w') \<Longrightarrow>
   requests w' = requests w @ [(upsert_method p, upsert_path large p, p)]"
  by (auto simp: protocolUpsert_try_def Let_def split: sum.splits if_splits)

text \<open>
  C5, amended. When the identity source supplies a client, a save of a protocol makes one
  request with the protocol as body: with the verb \<open>POST\<close> and the path \<open>protocol\<close> when
  the id is absent or 0; with the verb \<open>PUT\<close> and the path \<open>protocol/<id>\<close> when the id is
  present and not 0, \<open><id>\<close> being the number-to-string conversion of the id, which is its
  decimal digits when its magnitude is at most \<^verbatim>\<open>2^53\<close>. When the response carries an id
  \<open>k\<close> other than 0, the save raises nothing and the cache afterwards maps \<open>k\<close> to the
  returned record; when the response carries no id or the id 0, the save raises the error
  about the missing id and the cache is as it was. The save button submits the record whose
  id is the parsed route parameter and whose description is the serialisation of the
  displayed document.
\<close>

theorem save_request_and_cache:
  "\<exists>outcome st' w'.
     protocolUpsert large (Inr c) apiFetch now p (st, w) = (outcome, st', w') \<and>
     (protocol_id p = None \<or> protocol_id p = Some 0 \<longrightarrow>
        requests w' = requests w @ [(''POST'', ''protocol'', p)]) \<and>
     (\<forall>k. protocol_id p = Some k \<and> k \<noteq> 0 \<longrightarrow>
        requests w' = requests w @ [(''PUT'', ''protocol/'' @ number_to_string large k, p)]) \<and>
     (\<forall>k. protocol_id p = Some k \<and> k \<noteq> 0 \<and> \<bar>k\<bar> \<le> 9007199254740992 \<longrightarrow>
        requests w' = requests w @ [(''PUT'', ''protocol/'' @ show_int k, p)]) \<and>
     (\<forall>created k.
        apiFetch c (upsert_method p) (upsert_path large p) p = Inr created \<and>
        protocol_id created = Some k \<and> k \<noteq> 0 \<longrightarrow>
          outcome = Inr () \<and> protocolCache w' k = Some created) \<and>
     (\<forall>created.
        apiFetch c (upsert_method p) (upsert_path large p) p = Inr created \<and>
        (protocol_id created = None \<or> protocol_id created = Some 0) \<longrightarrow>
          outcome = Inl (Error ''Received a protocol without an ID from server!'') \<and>
          protocolCache w' = protocolCache w) \<and>
     onSaveClick large auth apiFetch now routeId protocol (st, w) =
       protocolUpsert large auth apiFetch now (saveRecord routeId st protocol) (st, w) \<and>
     protocol_id (saveRecord routeId st protocol) = routeId \<and>
     protocol_description (saveRecord routeId st protocol) =
       Some (serializeSlate (currentDescription st protocol))"
proof -
  obtain outcome w' where t: "protocolUpsert_try large (Inr c) apiFetch p w = (outcome, w')"
    by (cases "protocolUpsert_try large (Inr c) apiFetch p w")
  have u: "protocolUpsert large (Inr c) apiFetch now p (st, w) =
       (outcome, st\<lparr>formSaving := False, formSavedTime := Some now\<rparr>, w')"
    using t by (simp add: protocolUpsert_def)
  have r: "requests w' = requests w @ [(upsert_method p, upsert_path large p, p)]"
    using t by (rule protocolUpsert_try_requests)
  have a: "protocol_id p = None \<or> protocol_id p = Some 0 \<longrightarrow>
        requests w' = requests w @ [(''POST'', ''protocol'', p)]"
    using r by (auto simp: upsert_method_def upsert_path_def truthy_number_def)
  have b: "\<forall>k. protocol_id p = Some k \<and> k \<noteq> 0 \<longrightarrow>
        requests w' = requests w @ [(''PUT'', ''protocol/'' @ number_to_string large k, p)]"
    using r by (auto simp: upsert_method_def upsert_path_def truthy_number_def)
  have b': "\<forall>k. protocol_id p = Some k \<and> k \<noteq> 0 \<and> \<bar>k\<bar> \<le> 9007199254740992 \<longrightarrow>
        requests w' = requests w @ [(''PUT'', ''protocol/'' @ show_int k, p)]"
    using b by (auto simp: number_to_string_def)
  have d: "\<forall>created k.
        apiFetch c (upsert_method p) (upsert_path large p) p = Inr created \<and>
        protocol_id created = Some k \<and> k \<noteq> 0 \<longrightarrow>
          outcome = Inr () \<and> protocolCache w' k = Some created"
    using t by (auto simp: protocolUpsert_try_def Let_def truthy_number_def)
  have d': "\<forall>created.
        apiFetch c (upsert_method p) (upsert_path large p) p = Inr created \<and>
        (protocol_id created = None \<or> protocol_id created = Some 0) \<longrightarrow>
          outcome = Inl (Error ''Received a protocol without an ID from server!'') \<and>
          protocolCache w' = protocolCache w"
    using t by (auto simp: protocolUpsert_try_def Let_def truthy_number_def)
  have e: "onSaveClick large auth apiFetch now routeId protocol (st, w) =
       protocolUpsert large auth apiFetch now (saveRecord routeId st protocol) (st, w)"
    by (simp add: onSaveClick_def)
  have f: "protocol_id (saveRecord routeId st protocol) = routeId \<and>
     protocol_description (saveRecord routeId st protocol) =
       Some (serializeSlate (currentDescription st protocol))"
    by (simp add: saveRecord_def)
  from u a b b' d d' e f show ?thesis by blast
qed

theorem save_request_and_cache_witness:
  "protocolUpsert unused_large (Inr ()) (\<lambda>c m p r. Inr (r\<lparr>protocol_id := Some 42\<rparr>))
     ''2020-06-01T10:00:00''
     \<lparr>protocol_id = None, protocol_name = Some ''A'', protocol_description = Some '''',
      protocol_blocks = Some ([] :: unit block_array)\<rparr>
     (\<lparr>name = Some ''A'', description = None, blocks = None, formSaving = False,
       formSavedTime = None\<rparr>,
      \<lparr>protocolCache = \<lambda>k. None, requests = []\<rparr>) =
   (Inr (),
    \<lparr>name = Some ''A'', description = None, blocks = None, formSaving = False,
      formSavedTime = Some ''2020-06-01T10:00:00''\<rparr>,
    \<lparr>protocolCache =
       (\<lambda>k. None)(42 \<mapsto> \<lparr>protocol_id = Some 42, protocol_name = Some ''A'',
          protocol_description = Some '''', protocol_blocks = Some []\<rparr>),
      requests = [(''POST'', ''protocol'',
        \<lparr>protocol_id = None, protocol_name = Some ''A'', protocol_description = Some '''',
         protocol_blocks = Some []\<rparr>)]\<rparr>) \<and>
   protocolUpsert unused_large (Inr ()) (\<lambda>c m p r. Inr (r\<lparr>protocol_id := Some 0\<rparr>))
     ''2020-06-01T10:00:00''
     \<lparr>protocol_id = Some 42, protocol_name = Some ''A'', protocol_description = Some '''',
      protocol_blocks = Some ([] :: unit block_array)\<rparr>
     (\<lparr>name = Some ''A'', description = None, blocks = None, formSaving = False,
       formSavedTime = None\<rparr>,
      \<lparr>protocolCache = \<lambda>k. None, requests = []\<rparr>) =
   (Inl (Error ''Received a protocol without an ID from server!''),
    \<lparr>name = Some ''A'', description = None, blocks = None, formSaving = False,
      formSavedTime = Some ''2020-06-01T10:00:00''\<rparr>,
    \<lparr>protocolCache = \<lambda>k. None,
      requests = [(''PUT'', ''protocol/42'',
        \<lparr>protocol_id = Some 42, protocol_name = Some ''A'', protocol_description = Some '''',
         protocol_blocks = Some []\<rparr>)]\<rparr>)"
  using
    save_request_and_cache [where large = unused_large and c = "()"
      and apiFetch = "\<lambda>c m p r. Inr (r\<lparr>protocol_id := Some 42\<rparr>)"
      and now = "''2020-06-01T10:00:00''"
      and p = "\<lparr>protocol_id = None, protocol_name = Some ''A'',
        protocol_description = Some '''', protocol_blocks = Some ([] :: unit block_array)\<rparr>"
      and st = "\<lparr>name = Some ''A'', description = None, blocks = None, formSaving = False,
        formSavedTime = None\<rparr>"
      and w = "\<lparr>protocolCache = \<lambda>k. None, requests = []\<rparr>"
      and auth = "Inr ()" and routeId = None and protocol = None]
    save_request_and_cache [where large = unused_large and c = "()"
      and apiFetch = "\<lambda>c m p r. Inr (r\<lparr>protocol_id := Some 0\<rparr>)"
      and now = "''2020-06-01T10:00:00''"
      and p = "\<lparr>protocol_id = Some 42, protocol_name = Some ''A'',
        protocol_description = Some '''', protocol_blocks = Some ([] :: unit block_array)\<rparr>"
      and st = "\<lparr>name = Some ''A'', description = None, blocks = None, formSaving = False,
        formSavedTime = None\<rparr>"
      and w = "\<lparr>protocolCache = \<lambda>k. None, requests = []\<rparr>"
      and auth = "Inr ()" and routeId = None and protocol = None]
  by (simp add: protocolUpsert_def protocolUpsert_try_def upsert_method_def upsert_path_def
      truthy_number_def Let_def number_to_string_def show_int_def show_nat.simps digit_char_def)

subsection \<open>C1: the displayed values\<close>

lemma displayed_overlay:
  "name st = Some n \<Longrightarrow> n \<noteq> [] \<Longrightarrow> currentName st protocol = n"
  "description st = Some d \<Longrightarrow> currentDescription st protocol = d"
  "blocks st = Some bs \<Longrightarrow> currentBlocks st protocol = bs"
  by (simp_all add: currentName_def currentDescription_def currentBlocks_def truthy_string_def)

text \<open>
  C1 at the input where the code departs from it: with the name overlay set to the empty
  string and a cached record named \<open>A\<close>, the displayed name is \<open>A\<close>, not the overlay's
  empty string; an overlay of no blocks, by contrast, is displayed over the cached blocks.
\<close>

theorem currentName_cleared_overlay:
  "currentName
     \<lparr>name = Some '''', description = None, blocks = None, formSaving = False,
      formSavedTime = None\<rparr>
     (Some (\<lparr>protocol_id = Some 7, protocol_name = Some ''A'', protocol_description = None,
       protocol_blocks = None\<rparr> :: unit Protocol)) = ''A'' \<and>
   currentBlocks
     \<lparr>name = None, description = None, blocks = Some [], formSaving = False,
      formSavedTime = None\<rparr>
     (Some \<lparr>protocol_id = Some 7, protocol_name = Some ''A'', protocol_description = None,
       protocol_blocks =
         Some [Some \<lparr>block_id = Some ''a'', block_type = text_question, block_fields = ()\<rparr>]\<rparr>)
     = []"
  by (simp add: currentName_def currentBlocks_def truthy_string_def)

subsection \<open>C9: the default description\<close>

text \<open>
  C9 at the input where the code departs from it: with no description overlay and no
  description in the cache, the displayed document is a single bare leaf, not the paragraph
  with one empty leaf that the empty string deserialises to.
\<close>

theorem currentDescription_default:
  "currentDescription
     (\<lparr>name = None, description = None, blocks = None, formSaving = False,
       formSavedTime = None\<rparr> :: unit page_state) None = [Text ''''] \<and>
   currentDescription
     \<lparr>name = None, description = None, blocks = None, formSaving = False,
      formSavedTime = None\<rparr>
     (Some (\<lparr>protocol_id = Some 7, protocol_name = Some ''A'', protocol_description = None,
       protocol_blocks = None\<rparr> :: unit Protocol)) = [Text ''''] \<and>
   deserializeSlate '''' = [Element [Text '''']] \<and>
   [Text ''''] \<noteq> deserializeSlate ''''"
  by (simp add: currentDescription_def truthy_string_def deserializeSlate_def)

end
